theory Spec2Isabelle
  imports Main "HOL-Library.Word"
begin

section \<open>Values exchanged with the web framework\<close>

text \<open>
  A Python \<open>str\<close> is a \<open>string\<close>, one \<open>char\<close> per code point (\<open>len\<close> is
  \<open>length\<close>); \<open>bytes\<close> is a list of 8-bit words. The routes of
  \<open>webui/program_routes.py\<close> raise \<open>HTTPException(status_code, detail)\<close> or return a
  \<open>RedirectResponse(url, status_code)\<close>, whose status code is 307 unless given.
\<close>

type_synonym bytes = "8 word list"

datatype HTTPException = HTTPException nat string

datatype Response = RedirectResponse string nat

text \<open>
  A form field is a text or an uploaded file. \<open>UploadFile r\<close> carries the text \<open>r\<close> that
  Python prints for the file object inside an f-string.
\<close>

datatype form_value = Str string | UploadFile string

text \<open>
  The form is a multi-dict, a sequence of (key, value) items: \<open>getlist\<close> gives every value
  of a key in order, \<open>get\<close> the value its dict view holds for the key (the last one), or
  \<open>None\<close>.
\<close>

type_synonym FormData = "(string \<times> form_value) list"

definition form_getlist :: "FormData \<Rightarrow> string \<Rightarrow> form_value list" where
  "form_getlist form_items key = map snd (filter (\<lambda>item. fst item = key) form_items)"

definition form_get :: "FormData \<Rightarrow> string \<Rightarrow> form_value option" where
  "form_get form_items key =
     (case form_getlist form_items key of [] \<Rightarrow> None | v # vs \<Rightarrow> Some (last (v # vs)))"

record Request =
  http_method :: string
  query_params :: "string \<rightharpoonup> string"
  form :: FormData

text \<open>What \<open>f"{program_id}"\<close> prints for the value of \<open>form.get("id")\<close>.\<close>

fun format_value :: "form_value option \<Rightarrow> string" where
  "format_value None = ''None''"
| "format_value (Some (Str s)) = s"
| "format_value (Some (UploadFile r)) = r"

section \<open>The builtin \<open>int\<close>\<close>

text \<open>
  \<open>int(x)\<close> is the interpreter's, not the repository's. The listing routes take its
  behaviour on a text as the parameter \<open>int_text\<close>: \<open>Some n\<close> when \<open>int(text)\<close> returns
  \<open>n\<close>, \<open>None\<close> when it raises \<open>ValueError\<close>. \<open>int(False)\<close> is 0 and \<open>int(True)\<close> is 1.
\<close>

datatype query_value = QStr string | QBool bool

fun py_int :: "(string \<Rightarrow> int option) \<Rightarrow> query_value \<Rightarrow> int option" where
  "py_int int_text (QStr s) = int_text s"
| "py_int int_text (QBool b) = Some (if b then 1 else 0)"

text \<open>
  \<open>int_of_str\<close> is that behaviour on the texts of code points below 256, as the
  interpreter computes it under its default limit of 4300 digits. Whitespace is dropped on
  both sides (tab to carriage return, the space, U+0085 and U+00A0; the separators U+001C to
  U+001F are not dropped). An optional sign is read. The digits are scanned, where a single
  underscore may stand between two digits, and counted; more digits than the limit raise
  \<open>ValueError\<close>, as does every text of another shape. Then the digits are converted.
\<close>

definition is_space :: "char \<Rightarrow> bool" where
  "is_space c = (of_char c \<in> {9, 10, 11, 12, 13, 32, 133, 160 :: nat})"

definition strip :: "string \<Rightarrow> string" where
  "strip s = rev (dropWhile is_space (rev (dropWhile is_space s)))"

definition is_digit :: "char \<Rightarrow> bool" where
  "is_digit c = (48 \<le> (of_char c :: nat) \<and> (of_char c :: nat) \<le> 57)"

fun scan_digits :: "string \<Rightarrow> string option" where
  "scan_digits [] = None"
| "scan_digits [c] = (if is_digit c then Some [c] else None)"
| "scan_digits (c # d # rest) =
     (if is_digit c then
        (if d = CHR ''_'' then map_option ((#) c) (scan_digits rest)
         else map_option ((#) c) (scan_digits (d # rest)))
      else None)"

definition int_max_str_digits :: nat where
  "int_max_str_digits = 4300"

definition digits_value :: "string \<Rightarrow> nat" where
  "digits_value ds = foldl (\<lambda>acc c. 10 * acc + (of_char c - 48)) 0 ds"

definition parse_unsigned :: "string \<Rightarrow> nat option" where
  "parse_unsigned body =
     (case scan_digits body of
        None \<Rightarrow> None
      | Some ds \<Rightarrow> if length ds > int_max_str_digits then None else Some (digits_value ds))"

definition int_of_str :: "string \<Rightarrow> int option" where
  "int_of_str s =
     (case strip s of
        [] \<Rightarrow> None
      | c # cs \<Rightarrow>
          if c = CHR ''-'' then map_option (\<lambda>n. - int n) (parse_unsigned cs)
          else if c = CHR ''+'' then map_option int (parse_unsigned cs)
          else map_option int (parse_unsigned (c # cs)))"

section \<open>The database\<close>

text \<open>
  The module \<open>db\<close> is not part of the sources at hand; the routes only call it. Its state
  is a record of the tables the routes read and write, every table a map or a sequence in
  ingestion order.
\<close>

record Database =
  program_bytes :: "string \<rightharpoonup> bytes"
  leo_source_code :: "string \<rightharpoonup> string"
  program_feature_hash :: "string \<rightharpoonup> string"
  similarity_index :: "string \<Rightarrow> string list"
  program_listing :: "bool \<Rightarrow> string list"
  builtin_programs :: "string list"

text \<open>
  Modelled from the spec: \<open>db.get_program\<close>, the Chain Index Read: given a ProgramId it
  returns the on-chain bytecode, or "not found" (\<open>None\<close>) for an unknown id.
\<close>

definition get_program :: "Database \<Rightarrow> string \<Rightarrow> bytes option" where
  "get_program db program_id = program_bytes db program_id"

text \<open>
  Modelled from the spec: \<open>db.get_program_leo_source_code\<close>, the SourceRecord Store's
  \<open>get(programId) -> sourceText | absent\<close>.
\<close>

definition get_program_leo_source_code :: "Database \<Rightarrow> string \<Rightarrow> string option" where
  "get_program_leo_source_code db program_id = leo_source_code db program_id"

text \<open>
  Modelled from the spec: \<open>db.store_program_leo_source_code\<close>, the SourceRecord Store's
  \<open>tryCommit(programId, sourceText) -> Committed | AlreadyCommitted\<close>: creation is a
  one-time transition from absent to present, an existing record is never overwritten.
\<close>

datatype commit_outcome = Committed | AlreadyCommitted

definition store_program_leo_source_code ::
  "Database \<Rightarrow> string \<Rightarrow> string \<Rightarrow> commit_outcome \<times> Database" where
  "store_program_leo_source_code db program_id source =
     (case leo_source_code db program_id of
        None \<Rightarrow> (Committed, db\<lparr>leo_source_code := (leo_source_code db)(program_id \<mapsto> source)\<rparr>)
      | Some _ \<Rightarrow> (AlreadyCommitted, db))"

text \<open>
  Modelled from the spec: \<open>db.get_program_feature_hash\<close>, the Similarity Index's
  \<open>featureHashOf(programId) -> FeatureHash | NotFound\<close>.
\<close>

definition get_program_feature_hash :: "Database \<Rightarrow> string \<Rightarrow> string option" where
  "get_program_feature_hash db program_id = program_feature_hash db program_id"

text \<open>
  Modelled from the spec: \<open>count(featureHash) -> integer \<ge> 0\<close>, the size of the similarity
  group of a feature hash.
\<close>

definition similar_count :: "Database \<Rightarrow> string \<Rightarrow> int" where
  "similar_count db feature_hash = int (length (similarity_index db feature_hash))"

text \<open>
  Modelled from the spec: \<open>db.get_program_similar_count\<close>, the \<open>count\<close> of the feature
  hash of a program (0 for a program that has none).
\<close>

definition get_program_similar_count :: "Database \<Rightarrow> string \<Rightarrow> int" where
  "get_program_similar_count db program_id =
     (case get_program_feature_hash db program_id of
        None \<Rightarrow> 0
      | Some feature_hash \<Rightarrow> similar_count db feature_hash)"

text \<open>
  Modelled from the spec: \<open>db.get_programs_with_feature_hash(feature_hash, start, end)\<close>, the
  Similarity Index's \<open>page(featureHash, offset, limit)\<close> with offset \<open>start\<close> and limit
  \<open>end - start\<close>: the slice of the group in its stable order, empty for an offset beyond the
  count.
\<close>

definition get_programs_with_feature_hash ::
  "Database \<Rightarrow> string \<Rightarrow> int \<Rightarrow> int \<Rightarrow> string list" where
  "get_programs_with_feature_hash db feature_hash start end' =
     take (nat (end' - start)) (drop (nat start) (similarity_index db feature_hash))"

text \<open>
  The catalog reads of the program listing, which the spec leaves to the boundary: the
  listing is given for each value of the hello-world filter, \<open>get_program_count\<close> is its
  length and \<open>get_programs(start, end)\<close> its slice.
\<close>

definition get_program_count :: "Database \<Rightarrow> bool \<Rightarrow> int" where
  "get_program_count db no_helloworld = int (length (program_listing db no_helloworld))"

definition get_programs :: "Database \<Rightarrow> int \<Rightarrow> int \<Rightarrow> bool \<Rightarrow> string list" where
  "get_programs db start end' no_helloworld =
     take (nat (end' - start)) (drop (nat start) (program_listing db no_helloworld))"

definition get_builtin_programs :: "Database \<Rightarrow> string list" where
  "get_builtin_programs db = builtin_programs db"

section \<open>Programs and the compiler\<close>

text \<open>
  Of \<open>aleo_types\<close> the routes below use a program's imports, and of an import its program
  id: a name and a network, printed \<open>name.network\<close>. A program id equals a text when it
  prints as that text. \<open>Program.load\<close>, which parses bytecode, is a parameter of the routes
  that call it.
\<close>

record ProgramID =
  name :: string
  network :: string

definition str_ProgramID :: "ProgramID \<Rightarrow> string" where
  "str_ProgramID p = name p @ ''.'' @ network p"

record Import =
  program_id :: ProgramID

record Program =
  program_imports :: "Import list"

text \<open>
  \<open>aleo_explorer_rust.compile_program(source, name, imports)\<close> is the external compiler: it
  returns bytecode or raises \<open>RuntimeError\<close> with a message.
\<close>

datatype compile_result = Compiled bytes | RuntimeError string

type_synonym compiler = "string \<Rightarrow> string \<Rightarrow> (string \<times> string) list \<Rightarrow> compile_result"

section \<open>The routes\<close>

subsection \<open>\<open>programs_route\<close>\<close>

record programs_ctx =
  programs :: "string list"
  page :: int
  total_pages :: int
  no_helloworld :: bool

text \<open>
  The \<open>try\<close> block that both listing routes open with: the page is 1 when \<open>p\<close> is
  absent, \<open>int(p)\<close> otherwise, and any exception becomes \<open>HTTPException 400\<close>.
\<close>

definition parse_page :: "(string \<Rightarrow> int option) \<Rightarrow> Request \<Rightarrow> HTTPException + int" where
  "parse_page int_text request =
     (case query_params request ''p'' of
        None \<Rightarrow> Inr 1
      | Some p \<Rightarrow>
          (case py_int int_text (QStr p) of
             None \<Rightarrow> Inl (HTTPException 400 ''Invalid page'')
           | Some n \<Rightarrow> Inr n))"

text \<open>
  \<open>no_helloworld = request.query_params.get("no_helloworld", False)\<close>, then
  \<open>bool(int(no_helloworld))\<close>, and \<open>False\<close> on any exception.
\<close>

definition parse_no_helloworld :: "(string \<Rightarrow> int option) \<Rightarrow> Request \<Rightarrow> bool" where
  "parse_no_helloworld int_text request =
     (let v = (case query_params request ''no_helloworld'' of
                 None \<Rightarrow> QBool False
               | Some s \<Rightarrow> QStr s)
      in case py_int int_text v of None \<Rightarrow> False | Some n \<Rightarrow> n \<noteq> 0)"

definition programs_route ::
  "(string \<Rightarrow> int option) \<Rightarrow> Database \<Rightarrow> Request \<Rightarrow> HTTPException + programs_ctx" where
  "programs_route int_text db request =
     (case parse_page int_text request of
        Inl e \<Rightarrow> Inl e
      | Inr pg \<Rightarrow>
          (let nh = parse_no_helloworld int_text request;
               total_programs = get_program_count db nh;
               total = (total_programs div 50) + 1
           in if pg < 1 \<or> pg > total then Inl (HTTPException 400 ''Invalid page'')
              else
                (let start = 50 * (pg - 1);
                     progs = get_programs db start (start + 50) nh;
                     builtin = get_builtin_programs db
                 in Inr \<lparr>programs = progs @ builtin, page = pg, total_pages = total,
                          no_helloworld = nh\<rparr>)))"

subsection \<open>\<open>similar_programs_route\<close>\<close>

record similar_programs_ctx =
  similar_program_id :: string
  similar_programs :: "string list"
  similar_page :: int
  similar_total_pages :: int

definition similar_programs_route ::
  "(string \<Rightarrow> int option) \<Rightarrow> Database \<Rightarrow> Request
     \<Rightarrow> HTTPException + similar_programs_ctx" where
  "similar_programs_route int_text db request =
     (case parse_page int_text request of
        Inl e \<Rightarrow> Inl e
      | Inr pg \<Rightarrow>
          (case query_params request ''id'' of
             None \<Rightarrow> Inl (HTTPException 400 ''Missing program id'')
           | Some pid \<Rightarrow>
               (case get_program_feature_hash db pid of
                  None \<Rightarrow> Inl (HTTPException 404 ''Program not found'')
                | Some feature_hash \<Rightarrow>
                    (let total_programs = get_program_similar_count db pid;
                         total = (total_programs div 50) + 1
                     in if pg < 1 \<or> pg > total then Inl (HTTPException 400 ''Invalid page'')
                        else
                          (let start = 50 * (pg - 1);
                               progs = get_programs_with_feature_hash db feature_hash
                                         start (start + 50)
                           in Inr \<lparr>similar_program_id = pid, similar_programs = progs,
                                    similar_page = pg, similar_total_pages = total\<rparr>)))))"

subsection \<open>\<open>upload_source_route\<close>\<close>

text \<open>
  The context handed to the template. Its \<open>sync_info\<close> entry, which \<open>out_of_sync_check\<close>
  computes from the session, and the caching header depend on nothing the route computes and
  are left out, here and in the listing routes.
\<close>

record upload_source_ctx =
  upload_program_id :: string
  upload_imports :: "string list"
  upload_import_programs :: "string option list"
  has_leo_source :: bool
  message :: "string option"
  source :: "form_value option"

text \<open>
  The loop over \<open>program.imports\<close>: it appends the name of every import to \<open>imports\<close>
  and, to \<open>import_programs\<close>, the stored source of the import (which may be \<open>None\<close>), or
  \<open>None\<close> without a lookup for \<open>credits.aleo\<close>.
\<close>

fun resolve_imports ::
  "Database \<Rightarrow> Import list \<Rightarrow> string list \<times> string option list
     \<Rightarrow> string list \<times> string option list" where
  "resolve_imports db [] acc = acc"
| "resolve_imports db (i # rest) (imports, import_programs) =
     (if str_ProgramID (program_id i) \<noteq> ''credits.aleo'' then
        resolve_imports db rest
          (imports @ [name (program_id i)],
           import_programs @ [get_program_leo_source_code db (str_ProgramID (program_id i))])
      else
        resolve_imports db rest
          (imports @ [name (program_id i)], import_programs @ [None]))"

definition upload_source_route ::
  "(bytes \<Rightarrow> Program) \<Rightarrow> Database \<Rightarrow> Request \<Rightarrow> HTTPException + upload_source_ctx" where
  "upload_source_route Program_load db request =
     (case query_params request ''id'' of
        None \<Rightarrow> Inl (HTTPException 400 ''Missing program id'')
      | Some pid \<Rightarrow>
          (case get_program db pid of
             None \<Rightarrow> Inl (HTTPException 404 ''Program not found'')
           | Some program \<Rightarrow>
               (let src = (if http_method request = ''POST''
                           then form_get (form request) ''source''
                           else Some (Str ''''));
                    (leo, imports, import_programs) =
                      (if get_program_leo_source_code db pid \<noteq> None then (True, [], [])
                       else
                         (let (imports, import_programs) =
                                resolve_imports db (program_imports (Program_load program)) ([], [])
                          in (False, imports, import_programs)))
                in Inr \<lparr>upload_program_id = pid, upload_imports = imports,
                         upload_import_programs = import_programs, has_leo_source = leo,
                         message = query_params request ''message'', source = src\<rparr>)))"

subsection \<open>\<open>submit_source_route\<close>\<close>

text \<open>
  The loop that pairs \<open>imports[]\<close> with \<open>import_programs[]\<close>: an uploaded file on either
  side ends the route with "Invalid form data" (\<open>None\<close>).
\<close>

fun import_data_loop ::
  "(form_value \<times> form_value) list \<Rightarrow> (string \<times> string) list \<Rightarrow> (string \<times> string) list option" where
  "import_data_loop [] import_data = Some import_data"
| "import_data_loop ((Str i, Str p) # rest) import_data =
     import_data_loop rest (import_data @ [(i, p)])"
| "import_data_loop (_ # rest) import_data = None"

text \<open>
  \<open>program_id.split(".")[0]\<close> is the text before the first dot, the whole text when it has
  none.
\<close>

definition split_first :: "string \<Rightarrow> string" where
  "split_first s = takeWhile (\<lambda>c. c \<noteq> CHR ''.'') s"

definition upload_source_url :: "string \<Rightarrow> string \<Rightarrow> string" where
  "upload_source_url shown_id msg = ''/upload_source?id='' @ shown_id @ ''&message='' @ msg"

definition submit_source_route :: "compiler \<Rightarrow> Database \<Rightarrow> Request \<Rightarrow> Database \<times> Response" where
  "submit_source_route compile_program db request =
     (case form_get (form request) ''id'' of
        None \<Rightarrow>
          (db, RedirectResponse (upload_source_url (format_value None) ''Missing program id'') 307)
      | Some (UploadFile r) \<Rightarrow>
          (db, RedirectResponse
                 (upload_source_url (format_value (Some (UploadFile r))) ''Missing program id'') 307)
      | Some (Str pid) \<Rightarrow>
          (case get_program db pid of
             None \<Rightarrow> (db, RedirectResponse (upload_source_url pid ''Program not found'') 307)
           | Some program \<Rightarrow>
               (case form_get (form request) ''source'' of
                  None \<Rightarrow>
                    (db, RedirectResponse (upload_source_url pid ''Missing source code'') 307)
                | Some (UploadFile r) \<Rightarrow>
                    (db, RedirectResponse (upload_source_url pid ''Missing source code'') 307)
                | Some (Str src) \<Rightarrow>
                    if src = '''' then
                      (db, RedirectResponse (upload_source_url pid ''Missing source code'') 307)
                    else
                      (let imports = form_getlist (form request) ''imports[]'';
                           import_programs = form_getlist (form request) ''import_programs[]''
                       in if length imports \<noteq> length import_programs then
                            (db, RedirectResponse
                                   (upload_source_url pid ''Invalid form data'') 307)
                          else
                            (case import_data_loop (zip imports import_programs) [] of
                               None \<Rightarrow>
                                 (db, RedirectResponse
                                        (upload_source_url pid ''Invalid form data'') 307)
                             | Some import_data \<Rightarrow>
                                 (case compile_program src (split_first pid) import_data of
                                    RuntimeError e \<Rightarrow>
                                      (let msg = (if length e > 255
                                                  then take 255 e @ ''[trimmed]'' else e)
                                       in (db, RedirectResponse
                                                 (upload_source_url pid
                                                    (''Failed to compile source code: '' @ msg))
                                                 307))
                                  | Compiled compiled \<Rightarrow>
                                      if program \<noteq> compiled then
                                        (db, RedirectResponse
                                               (upload_source_url pid
                                                  (''Program compiled from source code doesn'' @
                                                   [CHR 0x27] @ ''t match program on chain''))
                                               307)
                                      else
                                        (snd (store_program_leo_source_code db pid src),
                                         RedirectResponse (''/program?id='' @ pid) 303)))))))"

section \<open>Concrete inputs\<close>

text \<open>The inputs on which the properties below are run.\<close>

definition ex_hello_request :: Request where
  "ex_hello_request =
     \<lparr>http_method = ''POST'', query_params = Map.empty,
      form = [(''id'', Str ''hello.aleo''), (''source'', Str ''program hello.aleo;''),
              (''imports[]'', Str ''credits''), (''import_programs[]'', Str ''program credits.aleo;'')]\<rparr>"

definition ex_hello_db :: Database where
  "ex_hello_db =
     \<lparr>program_bytes = [''hello.aleo'' \<mapsto> [1, 2, 3]], leo_source_code = Map.empty,
      program_feature_hash = [''hello.aleo'' \<mapsto> ''h1''],
      similarity_index = (\<lambda>h. if h = ''h1'' then [''hello.aleo''] else []),
      program_listing = (\<lambda>nh. if nh then [] else [''hello.aleo'']),
      builtin_programs = [''credits.aleo'']\<rparr>"

definition ex_compile :: compiler where
  "ex_compile src nm imports =
     (if src = ''program hello.aleo;'' \<and> nm = ''hello'' then Compiled [1, 2, 3]
      else if nm = ''hello'' then Compiled [9]
      else RuntimeError ''syntax error'')"

definition ex_mismatch_request :: Request where
  "ex_mismatch_request =
     \<lparr>http_method = ''POST'', query_params = Map.empty,
      form = [(''id'', Str ''hello.aleo''), (''source'', Str ''program other.aleo;'')]\<rparr>"

definition ex_broken_request :: Request where
  "ex_broken_request =
     \<lparr>http_method = ''POST'', query_params = Map.empty,
      form = [(''id'', Str ''hello.aleo''), (''source'', Str ''progam'')]\<rparr>"

definition ex_long_error :: string where
  "ex_long_error = replicate 300 CHR ''e''"

definition ex_failing_compile :: compiler where
  "ex_failing_compile src nm imports = RuntimeError ex_long_error"

definition ex_committed_db :: Database where
  "ex_committed_db = ex_hello_db\<lparr>leo_source_code := [''hello.aleo'' \<mapsto> ''program hello.aleo;'']\<rparr>"

definition ex_load :: "bytes \<Rightarrow> Program" where
  "ex_load b =
     (if b = [1] then \<lparr>program_imports = [\<lparr>program_id = \<lparr>name = ''b'', network = ''aleo''\<rparr>\<rparr>]\<rparr>
      else if b = [2] then \<lparr>program_imports = [\<lparr>program_id = \<lparr>name = ''a'', network = ''aleo''\<rparr>\<rparr>]\<rparr>
      else if b = [7] then \<lparr>program_imports = [\<lparr>program_id = \<lparr>name = ''dep'', network = ''aleo''\<rparr>\<rparr>]\<rparr>
      else if b = [8] then
        \<lparr>program_imports = [\<lparr>program_id = \<lparr>name = ''credits'', network = ''aleo''\<rparr>\<rparr>]\<rparr>
      else \<lparr>program_imports = []\<rparr>)"

definition ex_chain_db :: Database where
  "ex_chain_db =
     \<lparr>program_bytes = [''a.aleo'' \<mapsto> [1], ''b.aleo'' \<mapsto> [2], ''main.aleo'' \<mapsto> [7],
                        ''token.aleo'' \<mapsto> [8]],
      leo_source_code = [''b.aleo'' \<mapsto> ''program b.aleo;''],
      program_feature_hash = Map.empty,
      similarity_index = (\<lambda>h. []),
      program_listing = (\<lambda>nh. [''a.aleo'', ''b.aleo'', ''main.aleo'', ''token.aleo'']),
      builtin_programs = [''credits.aleo'']\<rparr>"

definition ex_upload_request :: "string \<Rightarrow> Request" where
  "ex_upload_request pid = \<lparr>http_method = ''GET'', query_params = [''id'' \<mapsto> pid], form = []\<rparr>"

definition ex_similar_request :: "string \<Rightarrow> Request" where
  "ex_similar_request p =
     \<lparr>http_method = ''GET'', query_params = [''id'' \<mapsto> ''hello.aleo'', ''p'' \<mapsto> p], form = []\<rparr>"

definition ex_listing_request :: "string \<Rightarrow> Request" where
  "ex_listing_request v =
     \<lparr>http_method = ''GET'', query_params = [''no_helloworld'' \<mapsto> v], form = []\<rparr>"

definition ex_bare_request :: Request where
  "ex_bare_request =
     \<lparr>http_method = ''POST'', query_params = Map.empty,
      form = [(''id'', Str ''a.aleo''), (''source'', Str ''program a.aleo;'')]\<rparr>"

definition ex_bare_compile :: compiler where
  "ex_bare_compile src nm imports =
     (if imports = [] then Compiled [1] else RuntimeError ''unexpected imports'')"

section \<open>The texts of integers\<close>

text \<open>
  What it means for a text to be parseable as an integer, stated without the parser: the
  text is a run of whitespace, an optional sign, a body and a run of whitespace, where the
  body is a decimal digit followed by further decimal digits, each of which may be preceded
  by one underscore, and has at most 4300 digits. Its value is the decimal value of the
  digits, negated after a minus sign.
\<close>

definition space_char :: "char \<Rightarrow> bool" where
  "space_char c =
     (c \<in> {CHR 0x09, CHR 0x0A, CHR 0x0B, CHR 0x0C, CHR 0x0D, CHR 0x20, CHR 0x85, CHR 0xA0})"

definition decimal_char :: "char \<Rightarrow> bool" where
  "decimal_char c = (c \<in> set ''0123456789'')"

definition decimal_digit :: "char \<Rightarrow> nat" where
  "decimal_digit c = length (takeWhile (\<lambda>d. d \<noteq> c) ''0123456789'')"

definition decimal_value :: "string \<Rightarrow> nat" where
  "decimal_value ds = (\<Sum>i < length ds. decimal_digit (ds ! i) * 10 ^ (length ds - Suc i))"

inductive digit_groups :: "string \<Rightarrow> string \<Rightarrow> bool" where
  single: "decimal_char c \<Longrightarrow> digit_groups [c] [c]"
| adjacent: "decimal_char c \<Longrightarrow> digit_groups body ds \<Longrightarrow> digit_groups (c # body) (c # ds)"
| underscore:
    "decimal_char c \<Longrightarrow> digit_groups body ds \<Longrightarrow> digit_groups (c # CHR ''_'' # body) (c # ds)"

definition integer_text :: "string \<Rightarrow> int \<Rightarrow> bool" where
  "integer_text s n =
     (\<exists>pre sgn body post ds.
        s = pre @ sgn @ body @ post \<and> list_all space_char pre \<and> list_all space_char post \<and>
        digit_groups body ds \<and> length ds \<le> 4300 \<and>
        (sgn = '''' \<and> n = int (decimal_value ds) \<or>
         sgn = ''+'' \<and> n = int (decimal_value ds) \<or>
         sgn = ''-'' \<and> n = - int (decimal_value ds)))"

text \<open>
  The claim's reading of the \<open>no_helloworld\<close> parameter: the filter is on exactly when
  the parameter is present and is the text of an integer other than zero.
\<close>

definition no_helloworld_filter :: "string option \<Rightarrow> bool" where
  "no_helloworld_filter param =
     (case param of None \<Rightarrow> False | Some v \<Rightarrow> (\<exists>n. integer_text v n \<and> n \<noteq> 0))"

section \<open>Properties of \<open>submit_source_route\<close>\<close>

lemma import_data_loop_texts:
  "length is = length ps \<Longrightarrow>
   import_data_loop (zip (map Str is) (map Str ps)) acc = Some (acc @ zip is ps)"
  by (induction "is" ps arbitrary: acc rule: list_induct2) simp_all

lemma submit_compiles:
  assumes "form_get (form request) ''id'' = Some (Str pid)"
    and "get_program db pid = Some onchain"
    and "form_get (form request) ''source'' = Some (Str src)"
    and "src \<noteq> ''''"
    and "form_getlist (form request) ''imports[]'' = map Str is"
    and "form_getlist (form request) ''import_programs[]'' = map Str ps"
    and "length is = length ps"
  shows "submit_source_route compile_program db request =
     (case compile_program src (split_first pid) (zip is ps) of
        RuntimeError e \<Rightarrow>
          (db, RedirectResponse
                 (upload_source_url pid
                    (''Failed to compile source code: '' @
                     (if length e > 255 then take 255 e @ ''[trimmed]'' else e))) 307)
      | Compiled compiled \<Rightarrow>
          if onchain \<noteq> compiled then
            (db, RedirectResponse
                   (upload_source_url pid
                      (''Program compiled from source code doesn'' @ [CHR 0x27] @
                       ''t match program on chain'')) 307)
          else
            (snd (store_program_leo_source_code db pid src),
             RedirectResponse (''/program?id='' @ pid) 303))"
  using assms
  by (simp add: submit_source_route_def import_data_loop_texts Let_def
      split: compile_result.splits)

lemma store_keeps_records:
  "get_program_leo_source_code db p = Some s \<Longrightarrow>
   get_program_leo_source_code (snd (store_program_leo_source_code db q src)) p = Some s"
  by (auto simp: get_program_leo_source_code_def store_program_leo_source_code_def
      split: option.splits)


lemma store_keeps_programs:
  "get_program (snd (store_program_leo_source_code db q src)) p = get_program db p"
  by (simp add: get_program_def store_program_leo_source_code_def split: option.splits)

lemma submit_db_cases:
  "fst (submit_source_route compile_program db request) = db \<or>
   (\<exists>pid src. fst (submit_source_route compile_program db request) =
      snd (store_program_leo_source_code db pid src))"
  by (auto simp: submit_source_route_def Let_def
      split: option.splits form_value.splits compile_result.splits)

lemma ex_hello_form:
  "form_get (form ex_hello_request) ''id'' = Some (Str ''hello.aleo'')"
  "get_program ex_hello_db ''hello.aleo'' = Some [1, 2, 3]"
  "form_get (form ex_hello_request) ''source'' = Some (Str ''program hello.aleo;'')"
  "form_getlist (form ex_hello_request) ''imports[]'' = map Str [''credits'']"
  "form_getlist (form ex_hello_request) ''import_programs[]'' = map Str [''program credits.aleo;'']"
  by (simp_all add: ex_hello_request_def ex_hello_db_def form_get_def form_getlist_def
      get_program_def)

lemma ex_mismatch_form:
  "form_get (form ex_mismatch_request) ''id'' = Some (Str ''hello.aleo'')"
  "form_get (form ex_mismatch_request) ''source'' = Some (Str ''program other.aleo;'')"
  "form_getlist (form ex_mismatch_request) ''imports[]'' = map Str []"
  "form_getlist (form ex_mismatch_request) ''import_programs[]'' = map Str []"
  by (simp_all add: ex_mismatch_request_def form_get_def form_getlist_def)

lemma ex_broken_form:
  "form_get (form ex_broken_request) ''id'' = Some (Str ''hello.aleo'')"
  "form_get (form ex_broken_request) ''source'' = Some (Str ''progam'')"
  "form_getlist (form ex_broken_request) ''imports[]'' = map Str []"
  "form_getlist (form ex_broken_request) ''import_programs[]'' = map Str []"
  by (simp_all add: ex_broken_request_def form_get_def form_getlist_def)

text \<open>C9\<close>

lemma split_first_suffix:
  "CHR ''.'' \<notin> set bare \<Longrightarrow> split_first (bare @ ''.'' @ suffix) = bare"
  unfolding split_first_def
  by (induction bare) auto

lemma store_existing_record:
  "get_program_leo_source_code db pid = Some committed \<Longrightarrow>
   store_program_leo_source_code db pid src = (AlreadyCommitted, db)"
  by (simp add: get_program_leo_source_code_def store_program_leo_source_code_def)

lemma submit_keeps_records:
  assumes "get_program_leo_source_code db p = Some s"
  shows "get_program_leo_source_code (fst (submit_source_route compile_program db request)) p =
     Some s"
  using submit_db_cases [of compile_program db request] assms
  by (auto simp: store_keeps_records)



text \<open>
  Claim C2. A submission whose compiled bytecode differs from the on-chain bytecode of its
  program id is rejected with the bytecode-mismatch redirect, and the database, the source
  store with it, is the one the route started from: no store write occurs.
\<close>

theorem mismatch_leaves_store_unchanged:
  assumes "form_get (form request) ''id'' = Some (Str pid)"
    and "get_program db pid = Some onchain"
    and "form_get (form request) ''source'' = Some (Str src)"
    and "src \<noteq> ''''"
    and "form_getlist (form request) ''imports[]'' = map Str is"
    and "form_getlist (form request) ''import_programs[]'' = map Str ps"
    and "length is = length ps"
    and "compile_program src (split_first pid) (zip is ps) = Compiled compiled"
    and "compiled \<noteq> onchain"
  shows "fst (submit_source_route compile_program db request) = db \<and>
         snd (submit_source_route compile_program db request) =
           RedirectResponse
             (''/upload_source?id='' @ pid @
              ''&message=Program compiled from source code doesn'' @ [CHR 0x27] @
              ''t match program on chain'') 307"
  using submit_compiles [OF assms(1-7), of compile_program] assms(8,9)
  by (auto simp: upload_source_url_def)

theorem mismatch_leaves_store_unchanged_witness:
  "ex_compile ''program other.aleo;'' (split_first ''hello.aleo'') (zip [] []) = Compiled [9] \<and>
   get_program ex_hello_db ''hello.aleo'' = Some [1, 2, 3] \<and>
   fst (submit_source_route ex_compile ex_hello_db ex_mismatch_request) = ex_hello_db \<and>
   snd (submit_source_route ex_compile ex_hello_db ex_mismatch_request) =
     RedirectResponse
       (''/upload_source?id=hello.aleo&message=Program compiled from source code doesn'' @
        [CHR 0x27] @ ''t match program on chain'') 307"
proof -
  have c: "ex_compile ''program other.aleo;'' (split_first ''hello.aleo'') (zip [] []) =
      Compiled [9]"
    by (simp add: ex_compile_def split_first_def)
  have d: "[9] \<noteq> ([1, 2, 3] :: bytes)" by simp
  note r = mismatch_leaves_store_unchanged
    [where compile_program = ex_compile, OF ex_mismatch_form(1) ex_hello_form(2)
       ex_mismatch_form(2) _ ex_mismatch_form(3,4) _ c d]
  show ?thesis using r c ex_hello_form(2) by auto
qed

text \<open>
  Claim C4. When the compiler raises its error with message \<open>e\<close>, the message shown in
  the response is \<open>e\<close> itself if \<open>e\<close> has at most 255 characters, and otherwise the first
  255 characters of \<open>e\<close> followed by the marker \<open>[trimmed]\<close>; it never has more than
  264 characters.
\<close>

theorem compile_error_message_bounded:
  assumes "form_get (form request) ''id'' = Some (Str pid)"
    and "get_program db pid = Some onchain"
    and "form_get (form request) ''source'' = Some (Str src)"
    and "src \<noteq> ''''"
    and "form_getlist (form request) ''imports[]'' = map Str is"
    and "form_getlist (form request) ''import_programs[]'' = map Str ps"
    and "length is = length ps"
    and "compile_program src (split_first pid) (zip is ps) = RuntimeError e"
  shows "\<exists>msg. submit_source_route compile_program db request =
           (db, RedirectResponse
                  (''/upload_source?id='' @ pid @
                   ''&message=Failed to compile source code: '' @ msg) 307) \<and>
           (length e > 255 \<longrightarrow> msg = take 255 e @ ''[trimmed]'' \<and> length msg = 264) \<and>
           (length e \<le> 255 \<longrightarrow> msg = e) \<and>
           length msg \<le> 264"
  using submit_compiles [OF assms(1-7), of compile_program] assms(8)
  by (auto simp: upload_source_url_def)

theorem compile_error_message_bounded_witness:
  "ex_failing_compile ''progam'' (split_first ''hello.aleo'') (zip [] []) =
     RuntimeError ex_long_error \<and>
   length ex_long_error = 300 \<and>
   submit_source_route ex_failing_compile ex_hello_db ex_broken_request =
     (ex_hello_db, RedirectResponse
        (''/upload_source?id=hello.aleo&message=Failed to compile source code: '' @
         replicate 255 CHR ''e'' @ ''[trimmed]'') 307)"
proof -
  have c: "ex_failing_compile ''progam'' (split_first ''hello.aleo'') (zip [] []) =
      RuntimeError ex_long_error"
    by (simp add: ex_failing_compile_def)
  have l: "length ex_long_error = 300" "take 255 ex_long_error = replicate 255 CHR ''e''"
    by (simp_all add: ex_long_error_def)
  note r = compile_error_message_bounded
    [where compile_program = ex_failing_compile, OF ex_broken_form(1) ex_hello_form(2)
       ex_broken_form(2) _ ex_broken_form(3,4) _ c]
  show ?thesis using r c l by auto
qed

text \<open>
  Claim C9 says that the compiler is invoked with the resolved import closure in declaration
  order. The program \<open>a.aleo\<close> declares the import \<open>b.aleo\<close>, whose source is on record,
  so its resolved closure is the pair of \<open>b\<close> and that source. A submission for
  \<open>a.aleo\<close> whose form carries no imports is accepted by a compiler that succeeds on the
  empty import list and fails on that closure: the compiler was invoked with what the form
  carries.
\<close>

theorem resolved_import_closure_counterexample:
  "resolve_imports ex_chain_db (program_imports (ex_load [1])) ([], []) =
     ([''b''], [Some ''program b.aleo;'']) \<and>
   get_program ex_chain_db ''a.aleo'' = Some [1] \<and>
   form_getlist (form ex_bare_request) ''imports[]'' = [] \<and>
   form_getlist (form ex_bare_request) ''import_programs[]'' = [] \<and>
   ex_bare_compile ''program a.aleo;'' ''a'' [(''b'', ''program b.aleo;'')] =
     RuntimeError ''unexpected imports'' \<and>
   ex_bare_compile ''program a.aleo;'' ''a'' [] = Compiled [1] \<and>
   submit_source_route ex_bare_compile ex_chain_db ex_bare_request =
     (snd (store_program_leo_source_code ex_chain_db ''a.aleo'' ''program a.aleo;''),
      RedirectResponse ''/program?id=a.aleo'' 303)"
proof -
  have f: "form_get (form ex_bare_request) ''id'' = Some (Str ''a.aleo'')"
    "form_get (form ex_bare_request) ''source'' = Some (Str ''program a.aleo;'')"
    "form_getlist (form ex_bare_request) ''imports[]'' = map Str []"
    "form_getlist (form ex_bare_request) ''import_programs[]'' = map Str []"
    by (simp_all add: ex_bare_request_def form_get_def form_getlist_def)
  have g: "get_program ex_chain_db ''a.aleo'' = Some [1]"
    by (simp add: ex_chain_db_def get_program_def)
  have r: "resolve_imports ex_chain_db (program_imports (ex_load [1])) ([], []) =
      ([''b''], [Some ''program b.aleo;''])"
    by (simp add: ex_load_def str_ProgramID_def get_program_leo_source_code_def ex_chain_db_def)
  have c: "ex_bare_compile ''program a.aleo;'' ''a'' [(''b'', ''program b.aleo;'')] =
      RuntimeError ''unexpected imports''"
    "ex_bare_compile ''program a.aleo;'' ''a'' [] = Compiled [1]"
    by (simp_all add: ex_bare_compile_def)
  have s: "split_first ''a.aleo'' = ''a''" by (simp add: split_first_def)
  have run: "submit_source_route ex_bare_compile ex_chain_db ex_bare_request =
     (snd (store_program_leo_source_code ex_chain_db ''a.aleo'' ''program a.aleo;''),
      RedirectResponse ''/program?id=a.aleo'' 303)"
    by (simp add: submit_compiles [OF f(1) g f(2) _ f(3,4)] s c)
  from r g f(3,4) c run show ?thesis by simp
qed

text \<open>
  Claim C9, amended. A submission that reaches the compiler (a text id of a program on
  chain, a non-empty text source, text import lists of equal length) invokes it with the
  submitted source text, the bare program name (for an id \<open>bare.aleo\<close> whose name has no
  dot, the id without the suffix \<open>.aleo\<close>) and the import pairs that the form carries,
  the i-th value of \<open>imports[]\<close> with the i-th value of \<open>import_programs[]\<close>, in the
  order of the form: the outcome of the route is the same for any two compilers that agree
  at exactly these arguments, and it is the success redirect exactly when the compiler
  returns the on-chain bytecode there. The route does not resolve the imports: its response
  is the same whatever source records the store holds.
\<close>

theorem compiler_invoked_with_source_name_imports:
  assumes "form_get (form request) ''id'' = Some (Str pid)"
    and "get_program db pid = Some onchain"
    and "form_get (form request) ''source'' = Some (Str src)"
    and "src \<noteq> ''''"
    and "form_getlist (form request) ''imports[]'' = map Str is"
    and "form_getlist (form request) ''import_programs[]'' = map Str ps"
    and "length is = length ps"
    and "pid = bare @ ''.aleo''"
    and "CHR ''.'' \<notin> set bare"
  shows "(\<forall>other_compiler.
            other_compiler src bare (zip is ps) = compile_program src bare (zip is ps) \<longrightarrow>
            submit_source_route other_compiler db request =
              submit_source_route compile_program db request) \<and>
         (snd (submit_source_route compile_program db request) =
            RedirectResponse (''/program?id='' @ pid) 303 \<longleftrightarrow>
          compile_program src bare (zip is ps) = Compiled onchain) \<and>
         (\<forall>records.
            snd (submit_source_route compile_program (db\<lparr>leo_source_code := records\<rparr>) request) =
              snd (submit_source_route compile_program db request))"
proof -
  have b: "split_first pid = bare"
    using split_first_suffix [OF assms(9), of "''aleo''"] assms(8) by simp
  note run = submit_compiles [OF assms(1-7), unfolded b]
  have same: "submit_source_route other_compiler db request =
      submit_source_route compile_program db request"
    if "other_compiler src bare (zip is ps) = compile_program src bare (zip is ps)"
    for other_compiler
    using that by (simp add: run)
  have accepted: "snd (submit_source_route compile_program db request) =
      RedirectResponse (''/program?id='' @ pid) 303 \<longleftrightarrow>
      compile_program src bare (zip is ps) = Compiled onchain"
  proof (cases "compile_program src bare (zip is ps)")
    case (Compiled compiled)
    then show ?thesis
      by (simp add: run [of compile_program])
  next
    case (RuntimeError e)
    then show ?thesis by (simp add: run [of compile_program])
  qed
  have store: "snd (submit_source_route compile_program (db\<lparr>leo_source_code := records\<rparr>) request) =
      snd (submit_source_route compile_program db request)" for records
  proof -
    have g: "get_program (db\<lparr>leo_source_code := records\<rparr>) pid = Some onchain"
      using assms(2) by (simp add: get_program_def)
    note run' = submit_compiles [OF assms(1) g assms(3-7), unfolded b]
    show ?thesis
      by (simp add: run [of compile_program] run' [of compile_program]
          split: compile_result.splits)
  qed
  show ?thesis
    by (intro conjI allI impI) (rule same, assumption, rule accepted, rule store)
qed

theorem compiler_invoked_with_source_name_imports_witness:
  "split_first ''hello.aleo'' = ''hello'' \<and>
   ex_compile ''program hello.aleo;'' ''hello'' [(''credits'', ''program credits.aleo;'')] =
     Compiled [1, 2, 3] \<and>
   snd (submit_source_route ex_compile ex_hello_db ex_hello_request) =
     RedirectResponse ''/program?id=hello.aleo'' 303"
proof -
  have c: "ex_compile ''program hello.aleo;'' ''hello'' [(''credits'', ''program credits.aleo;'')] =
     Compiled [1, 2, 3]"
    by (simp add: ex_compile_def)
  note r = compiler_invoked_with_source_name_imports
    [where compile_program = ex_compile and bare = "''hello''",
     OF ex_hello_form(1-3) _ ex_hello_form(4,5)]
  have s: "split_first ''hello.aleo'' = ''hello''"
    by (simp add: split_first_def)
  from r [THEN conjunct2, THEN conjunct1] c s show ?thesis by simp
qed

text \<open>
  Claim C3. Resubmitting a source that compiles to the on-chain bytecode for a program id
  that already has a committed source is a no-op success: the store answers
  \<open>AlreadyCommitted\<close>, the database is unchanged (so there is no second record) and the
  response is the success redirect. No submission, whatever its form and whatever the
  compiler returns, alters or removes a source record that is in the store.
\<close>

theorem committed_source_never_altered:
  assumes "form_get (form request) ''id'' = Some (Str pid)"
    and "get_program db pid = Some onchain"
    and "form_get (form request) ''source'' = Some (Str src)"
    and "src \<noteq> ''''"
    and "form_getlist (form request) ''imports[]'' = map Str is"
    and "form_getlist (form request) ''import_programs[]'' = map Str ps"
    and "length is = length ps"
    and "compile_program src (split_first pid) (zip is ps) = Compiled onchain"
    and "get_program_leo_source_code db pid = Some committed"
  shows "submit_source_route compile_program db request =
           (db, RedirectResponse (''/program?id='' @ pid) 303) \<and>
         store_program_leo_source_code db pid src = (AlreadyCommitted, db) \<and>
         (\<forall>any_compiler any_request p s.
            get_program_leo_source_code db p = Some s \<longrightarrow>
            get_program_leo_source_code
              (fst (submit_source_route any_compiler db any_request)) p = Some s)"
proof (intro conjI allI impI)
  show "submit_source_route compile_program db request =
      (db, RedirectResponse (''/program?id='' @ pid) 303)"
    using submit_compiles [OF assms(1-7), of compile_program] assms(8)
    by (simp add: store_existing_record [OF assms(9)])
next
  show "store_program_leo_source_code db pid src = (AlreadyCommitted, db)"
    by (rule store_existing_record [OF assms(9)])
next
  fix any_compiler any_request p s
  assume "get_program_leo_source_code db p = Some s"
  then show "get_program_leo_source_code
      (fst (submit_source_route any_compiler db any_request)) p = Some s"
    by (rule submit_keeps_records)
qed

theorem committed_source_never_altered_witness:
  "get_program_leo_source_code ex_committed_db ''hello.aleo'' = Some ''program hello.aleo;'' \<and>
   submit_source_route ex_compile ex_committed_db ex_hello_request =
     (ex_committed_db, RedirectResponse ''/program?id=hello.aleo'' 303) \<and>
   get_program_leo_source_code
     (fst (submit_source_route ex_compile ex_committed_db ex_mismatch_request)) ''hello.aleo'' =
     Some ''program hello.aleo;''"
proof -
  have c: "ex_compile ''program hello.aleo;'' (split_first ''hello.aleo'')
     (zip [''credits''] [''program credits.aleo;'']) = Compiled [1, 2, 3]"
    by (simp add: ex_compile_def split_first_def)
  have g: "get_program ex_committed_db ''hello.aleo'' = Some [1, 2, 3]"
    by (simp add: ex_committed_db_def ex_hello_db_def get_program_def)
  have n: "get_program_leo_source_code ex_committed_db ''hello.aleo'' =
      Some ''program hello.aleo;''"
    by (simp add: get_program_leo_source_code_def ex_committed_db_def)
  note r = committed_source_never_altered
    [where compile_program = ex_compile, OF ex_hello_form(1) g ex_hello_form(3) _
       ex_hello_form(4,5) _ c n]
  have r1: "submit_source_route ex_compile ex_committed_db ex_hello_request =
     (ex_committed_db, RedirectResponse ''/program?id=hello.aleo'' 303)"
    using r by simp
  have r2: "get_program_leo_source_code
     (fst (submit_source_route ex_compile ex_committed_db ex_mismatch_request)) ''hello.aleo'' =
     Some ''program hello.aleo;''"
    using r n by simp
  from n r1 r2 show ?thesis by simp
qed

section \<open>Properties of \<open>upload_source_route\<close>\<close>

lemma resolve_imports_map:
  "resolve_imports db imps (ns, ss) =
     (ns @ map (\<lambda>i. name (program_id i)) imps,
      ss @ map (\<lambda>i. if str_ProgramID (program_id i) \<noteq> ''credits.aleo''
                     then get_program_leo_source_code db (str_ProgramID (program_id i))
                     else None) imps)"
  by (induction imps arbitrary: ns ss) simp_all

lemma upload_resolves:
  assumes "query_params request ''id'' = Some pid"
    and "get_program db pid = Some b"
    and "get_program_leo_source_code db pid = None"
  shows "upload_source_route Program_load db request =
     Inr \<lparr>upload_program_id = pid,
          upload_imports = map (\<lambda>i. name (program_id i)) (program_imports (Program_load b)),
          upload_import_programs =
            map (\<lambda>i. if str_ProgramID (program_id i) \<noteq> ''credits.aleo''
                      then get_program_leo_source_code db (str_ProgramID (program_id i))
                      else None) (program_imports (Program_load b)),
          has_leo_source = False,
          message = query_params request ''message'',
          source = (if http_method request = ''POST''
                    then form_get (form request) ''source'' else Some (Str ''''))\<rparr>"
  using assms by (simp add: upload_source_route_def resolve_imports_map)

lemma upload_verified:
  assumes "query_params request ''id'' = Some pid"
    and "get_program db pid = Some b"
    and "get_program_leo_source_code db pid = Some s"
  shows "upload_source_route Program_load db request =
     Inr \<lparr>upload_program_id = pid, upload_imports = [], upload_import_programs = [],
          has_leo_source = True,
          message = query_params request ''message'',
          source = (if http_method request = ''POST''
                    then form_get (form request) ''source'' else Some (Str ''''))\<rparr>"
  using assms by (simp add: upload_source_route_def)

lemma ex_upload_inputs:
  "query_params (ex_upload_request pid) ''id'' = Some pid"
  "get_program ex_chain_db ''a.aleo'' = Some [1]"
  "get_program ex_chain_db ''main.aleo'' = Some [7]"
  "get_program ex_chain_db ''token.aleo'' = Some [8]"
  "get_program_leo_source_code ex_chain_db ''a.aleo'' = None"
  "get_program_leo_source_code ex_chain_db ''main.aleo'' = None"
  "get_program_leo_source_code ex_chain_db ''token.aleo'' = None"
  "get_program_leo_source_code ex_chain_db ''dep.aleo'' = None"
  by (simp_all add: ex_upload_request_def ex_chain_db_def get_program_def
      get_program_leo_source_code_def)

text \<open>
  Claim C6 says that resolution fails with \<open>MissingImportSource\<close> for a non-built-in
  import without a source record. It does not: \<open>main.aleo\<close> imports \<open>dep.aleo\<close>, which has
  no source record, and the route returns its context, with \<open>None\<close> as the import's source.
\<close>

theorem missing_import_source_counterexample:
  "program_imports (ex_load [7]) = [\<lparr>program_id = \<lparr>name = ''dep'', network = ''aleo''\<rparr>\<rparr>] \<and>
   str_ProgramID \<lparr>name = ''dep'', network = ''aleo''\<rparr> = ''dep.aleo'' \<and>
   get_program_leo_source_code ex_chain_db ''dep.aleo'' = None \<and>
   upload_source_route ex_load ex_chain_db (ex_upload_request ''main.aleo'') =
     Inr \<lparr>upload_program_id = ''main.aleo'', upload_imports = [''dep''],
          upload_import_programs = [None], has_leo_source = False, message = None,
          source = Some (Str '''')\<rparr>"
  by (simp only: upload_resolves [OF ex_upload_inputs(1,3,6)])
     (simp add: ex_upload_inputs(8) ex_load_def str_ProgramID_def ex_upload_request_def)

text \<open>
  Claim C6, amended. For a request that names a program on chain and every non-built-in
  import of that program whose source record is absent, import resolution
  (\<open>upload_source_route\<close>, which never calls the compiler) does not fail. When the program
  itself has no committed source, the route returns its context, which lists every import
  in declaration order and holds, at the position of that import, its name and the absent
  source \<open>None\<close>. When the program itself has a committed source, its imports are not
  resolved at all: the route returns its context with both import lists empty.
\<close>

theorem missing_import_source_listed_as_none:
  assumes "query_params request ''id'' = Some pid"
    and "get_program db pid = Some b"
    and "k < length (program_imports (Program_load b))"
    and "program_id (program_imports (Program_load b) ! k) = imported"
    and "str_ProgramID imported \<noteq> ''credits.aleo''"
    and "get_program_leo_source_code db (str_ProgramID imported) = None"
  shows "(get_program_leo_source_code db pid = None \<longrightarrow>
            (\<exists>ctx. upload_source_route Program_load db request = Inr ctx \<and>
               has_leo_source ctx = False \<and>
               length (upload_imports ctx) = length (program_imports (Program_load b)) \<and>
               length (upload_import_programs ctx) =
                 length (program_imports (Program_load b)) \<and>
               upload_imports ctx ! k = name imported \<and>
               upload_import_programs ctx ! k = None)) \<and>
         (get_program_leo_source_code db pid \<noteq> None \<longrightarrow>
            (\<exists>ctx. upload_source_route Program_load db request = Inr ctx \<and>
               has_leo_source ctx = True \<and>
               upload_imports ctx = [] \<and> upload_import_programs ctx = []))"
proof (intro conjI impI)
  assume n: "get_program_leo_source_code db pid = None"
  show "\<exists>ctx. upload_source_route Program_load db request = Inr ctx \<and>
      has_leo_source ctx = False \<and>
      length (upload_imports ctx) = length (program_imports (Program_load b)) \<and>
      length (upload_import_programs ctx) = length (program_imports (Program_load b)) \<and>
      upload_imports ctx ! k = name imported \<and>
      upload_import_programs ctx ! k = None"
    using assms(3-6) by (simp add: upload_resolves [OF assms(1,2) n])
next
  assume "get_program_leo_source_code db pid \<noteq> None"
  then obtain s where s: "get_program_leo_source_code db pid = Some s" by blast
  show "\<exists>ctx. upload_source_route Program_load db request = Inr ctx \<and>
      has_leo_source ctx = True \<and>
      upload_imports ctx = [] \<and> upload_import_programs ctx = []"
    by (simp add: upload_verified [OF assms(1,2) s])
qed

theorem missing_import_source_listed_as_none_witness:
  "program_id (program_imports (ex_load [7]) ! 0) = \<lparr>name = ''dep'', network = ''aleo''\<rparr> \<and>
   get_program_leo_source_code ex_chain_db ''dep.aleo'' = None \<and>
   get_program_leo_source_code ex_chain_db ''main.aleo'' = None \<and>
   (\<exists>ctx. upload_source_route ex_load ex_chain_db (ex_upload_request ''main.aleo'') = Inr ctx \<and>
      upload_imports ctx ! 0 = ''dep'' \<and> upload_import_programs ctx ! 0 = None) \<and>
   program_id (program_imports (ex_load [2]) ! 0) = \<lparr>name = ''a'', network = ''aleo''\<rparr> \<and>
   get_program_leo_source_code ex_chain_db ''a.aleo'' = None \<and>
   get_program_leo_source_code ex_chain_db ''b.aleo'' = Some ''program b.aleo;'' \<and>
   (\<exists>ctx. upload_source_route ex_load ex_chain_db (ex_upload_request ''b.aleo'') = Inr ctx \<and>
      has_leo_source ctx = True \<and> upload_imports ctx = [] \<and> upload_import_programs ctx = [])"
proof -
  have i: "program_id (program_imports (ex_load [7]) ! 0) = \<lparr>name = ''dep'', network = ''aleo''\<rparr>"
    "0 < length (program_imports (ex_load [7]))"
    "program_id (program_imports (ex_load [2]) ! 0) = \<lparr>name = ''a'', network = ''aleo''\<rparr>"
    "0 < length (program_imports (ex_load [2]))"
    by (simp_all add: ex_load_def)
  have s: "str_ProgramID \<lparr>name = ''dep'', network = ''aleo''\<rparr> = ''dep.aleo''"
    "str_ProgramID \<lparr>name = ''a'', network = ''aleo''\<rparr> = ''a.aleo''"
    by (simp_all add: str_ProgramID_def)
  have n: "get_program_leo_source_code ex_chain_db
      (str_ProgramID \<lparr>name = ''dep'', network = ''aleo''\<rparr>) = None"
    "get_program_leo_source_code ex_chain_db
      (str_ProgramID \<lparr>name = ''a'', network = ''aleo''\<rparr>) = None"
    by (simp_all add: s ex_upload_inputs(5,8))
  have d: "str_ProgramID \<lparr>name = ''dep'', network = ''aleo''\<rparr> \<noteq> ''credits.aleo''"
    "str_ProgramID \<lparr>name = ''a'', network = ''aleo''\<rparr> \<noteq> ''credits.aleo''"
    by (simp_all add: s)
  have b: "get_program ex_chain_db ''b.aleo'' = Some [2]"
    "get_program_leo_source_code ex_chain_db ''b.aleo'' = Some ''program b.aleo;''"
    by (simp_all add: ex_chain_db_def get_program_def get_program_leo_source_code_def)
  note main = missing_import_source_listed_as_none
    [where Program_load = ex_load, OF ex_upload_inputs(1,3) i(2) i(1) d(1) n(1), THEN conjunct1]
  note verified = missing_import_source_listed_as_none
    [where Program_load = ex_load, OF ex_upload_inputs(1) b(1) i(4) i(3) d(2) n(2),
     THEN conjunct2]
  have 1: "\<exists>ctx. upload_source_route ex_load ex_chain_db (ex_upload_request ''main.aleo'') =
      Inr ctx \<and> upload_imports ctx ! 0 = ''dep'' \<and> upload_import_programs ctx ! 0 = None"
    using main ex_upload_inputs(6) by auto
  have 2: "\<exists>ctx. upload_source_route ex_load ex_chain_db (ex_upload_request ''b.aleo'') =
      Inr ctx \<and> has_leo_source ctx = True \<and> upload_imports ctx = [] \<and>
      upload_import_programs ctx = []"
    using verified b(2) by auto
  from i(1) ex_upload_inputs(8) ex_upload_inputs(6) 1 i(3) ex_upload_inputs(5) b(2) 2
  show ?thesis by (intro conjI)
qed

text \<open>
  Claim C7. Resolving a program whose imports are all the built-in \<open>credits.aleo\<close>
  succeeds: every import is listed with the fixed placeholder \<open>None\<close> as its source, and
  the outcome is the same with an empty source store, so no stored source record is needed.
\<close>

theorem builtin_imports_need_no_source_record:
  assumes "query_params request ''id'' = Some pid"
    and "get_program db pid = Some b"
    and "get_program_leo_source_code db pid = None"
    and "\<forall>i \<in> set (program_imports (Program_load b)).
           str_ProgramID (program_id i) = ''credits.aleo''"
  shows "(\<exists>ctx. upload_source_route Program_load db request = Inr ctx \<and>
            upload_imports ctx =
              map (\<lambda>i. name (program_id i)) (program_imports (Program_load b)) \<and>
            upload_import_programs ctx =
              replicate (length (program_imports (Program_load b))) None) \<and>
         upload_source_route Program_load (db\<lparr>leo_source_code := Map.empty\<rparr>) request =
           upload_source_route Program_load db request"
proof -
  have e: "get_program (db\<lparr>leo_source_code := Map.empty\<rparr>) pid = Some b"
    "get_program_leo_source_code (db\<lparr>leo_source_code := Map.empty\<rparr>) pid = None"
    using assms(2) by (simp_all add: get_program_def get_program_leo_source_code_def)
  have m: "map (\<lambda>i. if str_ProgramID (program_id i) \<noteq> ''credits.aleo''
                      then get_program_leo_source_code d (str_ProgramID (program_id i))
                      else None) (program_imports (Program_load b)) =
      replicate (length (program_imports (Program_load b))) None" for d
    using assms(4) by (simp add: map_replicate_const [symmetric] cong: map_cong)
  show ?thesis
    by (simp add: upload_resolves [OF assms(1-3)] upload_resolves [OF assms(1) e] m)
qed

theorem builtin_imports_need_no_source_record_witness:
  "program_imports (ex_load [8]) = [\<lparr>program_id = \<lparr>name = ''credits'', network = ''aleo''\<rparr>\<rparr>] \<and>
   leo_source_code (ex_chain_db\<lparr>leo_source_code := Map.empty\<rparr>) = Map.empty \<and>
   upload_source_route ex_load (ex_chain_db\<lparr>leo_source_code := Map.empty\<rparr>)
       (ex_upload_request ''token.aleo'') =
     upload_source_route ex_load ex_chain_db (ex_upload_request ''token.aleo'') \<and>
   (\<exists>ctx. upload_source_route ex_load ex_chain_db (ex_upload_request ''token.aleo'') = Inr ctx \<and>
      upload_imports ctx = [''credits''] \<and> upload_import_programs ctx = [None])"
proof -
  have i: "program_imports (ex_load [8]) =
      [\<lparr>program_id = \<lparr>name = ''credits'', network = ''aleo''\<rparr>\<rparr>]"
    by (simp add: ex_load_def)
  have a: "\<forall>i \<in> set (program_imports (ex_load [8])).
      str_ProgramID (program_id i) = ''credits.aleo''"
    by (simp add: i str_ProgramID_def)
  from builtin_imports_need_no_source_record
    [where Program_load = ex_load, OF ex_upload_inputs(1,4,7) a]
  show ?thesis using i by auto
qed

text \<open>
  Claim C8 says that a program id repeated on the resolution path makes resolution fail with
  \<open>CyclicImport\<close>. On the cycle \<open>a.aleo\<close> \<open>\<rightarrow>\<close> \<open>b.aleo\<close> \<open>\<rightarrow>\<close> \<open>a.aleo\<close> resolving
  \<open>a.aleo\<close> returns its context.
\<close>

theorem cyclic_import_counterexample:
  "program_imports (ex_load [1]) = [\<lparr>program_id = \<lparr>name = ''b'', network = ''aleo''\<rparr>\<rparr>] \<and>
   program_imports (ex_load [2]) = [\<lparr>program_id = \<lparr>name = ''a'', network = ''aleo''\<rparr>\<rparr>] \<and>
   get_program ex_chain_db ''a.aleo'' = Some [1] \<and>
   get_program ex_chain_db ''b.aleo'' = Some [2] \<and>
   upload_source_route ex_load ex_chain_db (ex_upload_request ''a.aleo'') =
     Inr \<lparr>upload_program_id = ''a.aleo'', upload_imports = [''b''],
          upload_import_programs = [Some ''program b.aleo;''], has_leo_source = False,
          message = None, source = Some (Str '''')\<rparr>"
  by (simp only: upload_resolves [OF ex_upload_inputs(1,2,5)])
     (simp add: ex_load_def str_ProgramID_def ex_upload_request_def ex_chain_db_def
        get_program_def get_program_leo_source_code_def)

text \<open>
  Claim C8, amended. Import resolution always terminates, in one pass over the declared
  imports of the requested program (\<open>resolve_imports\<close> recurses on that list alone): for
  the id of a program on chain the route returns a context with at most one entry per
  declared import, and it reads no bytecode but that program's, so it never descends into
  the imports of an import and detects no cycle.
\<close>

theorem import_resolution_single_pass:
  assumes "query_params request ''id'' = Some pid"
    and "get_program db pid = Some b"
  shows "(\<exists>ctx. upload_source_route Program_load db request = Inr ctx \<and>
            length (upload_imports ctx) \<le> length (program_imports (Program_load b)) \<and>
            length (upload_import_programs ctx) = length (upload_imports ctx)) \<and>
         (\<forall>other. get_program other pid = Some b \<and>
                  leo_source_code other = leo_source_code db \<longrightarrow>
                  upload_source_route Program_load other request =
                    upload_source_route Program_load db request)"
proof (intro conjI allI impI)
  show "\<exists>ctx. upload_source_route Program_load db request = Inr ctx \<and>
      length (upload_imports ctx) \<le> length (program_imports (Program_load b)) \<and>
      length (upload_import_programs ctx) = length (upload_imports ctx)"
  proof (cases "get_program_leo_source_code db pid")
    case None
    then show ?thesis by (simp add: upload_resolves [OF assms])
  next
    case (Some s)
    then show ?thesis by (simp add: upload_verified [OF assms])
  qed
next
  fix other
  assume o: "get_program other pid = Some b \<and> leo_source_code other = leo_source_code db"
  then have same: "get_program_leo_source_code other = get_program_leo_source_code db"
    by (simp add: get_program_leo_source_code_def fun_eq_iff)
  show "upload_source_route Program_load other request =
      upload_source_route Program_load db request"
  proof (cases "get_program_leo_source_code db pid")
    case None
    then show ?thesis
      using o by (simp add: upload_resolves [OF assms] upload_resolves [OF assms(1)] same)
  next
    case (Some s)
    then show ?thesis
      using o by (simp add: upload_verified [OF assms] upload_verified [OF assms(1)] same)
  qed
qed

theorem import_resolution_single_pass_witness:
  "get_program ex_chain_db ''a.aleo'' = Some [1] \<and>
   (\<exists>ctx. upload_source_route ex_load ex_chain_db (ex_upload_request ''a.aleo'') = Inr ctx \<and>
      length (upload_imports ctx) \<le> 1) \<and>
   upload_source_route ex_load (ex_chain_db\<lparr>program_bytes := [''a.aleo'' \<mapsto> [1]]\<rparr>)
       (ex_upload_request ''a.aleo'') =
     upload_source_route ex_load ex_chain_db (ex_upload_request ''a.aleo'')"
proof -
  have l: "length (program_imports (ex_load [1])) = 1"
    by (simp add: ex_load_def)
  have o: "get_program (ex_chain_db\<lparr>program_bytes := [''a.aleo'' \<mapsto> [1]]\<rparr>) ''a.aleo'' = Some [1] \<and>
      leo_source_code (ex_chain_db\<lparr>program_bytes := [''a.aleo'' \<mapsto> [1]]\<rparr>) =
      leo_source_code ex_chain_db"
    by (simp add: get_program_def)
  note r = import_resolution_single_pass
    [where Program_load = ex_load, OF ex_upload_inputs(1,2)]
  from r [THEN conjunct1] r [THEN conjunct2, rule_format, OF o] l ex_upload_inputs(2)
  show ?thesis by auto
qed

section \<open>Properties of \<open>int_of_str\<close>\<close>

lemma is_space_iff: "is_space c = space_char c"
  by (cases c) (simp add: is_space_def space_char_def)

lemma is_digit_iff: "is_digit c = decimal_char c"
  by (cases c) (simp add: is_digit_def decimal_char_def)

lemma digit_groups_start:
  "digit_groups body ds \<Longrightarrow> \<exists>c rest. body = c # rest \<and> decimal_char c"
  by (induction rule: digit_groups.induct) auto

lemma digit_groups_last:
  "digit_groups body ds \<Longrightarrow> body \<noteq> [] \<and> decimal_char (last body)"
  by (induction rule: digit_groups.induct) auto

lemma digit_groups_digits:
  "digit_groups body ds \<Longrightarrow> list_all decimal_char ds"
  by (induction rule: digit_groups.induct) auto

lemma underscore_not_decimal: "\<not> decimal_char CHR ''_''"
  by (simp add: decimal_char_def)

lemma scan_digits_groups: "scan_digits body = Some ds \<Longrightarrow> digit_groups body ds"
proof (induction body arbitrary: ds rule: scan_digits.induct)
  case 1
  then show ?case by simp
next
  case (2 c)
  then show ?case
    by (auto simp: is_digit_iff intro: digit_groups.single split: if_splits)
next
  case (3 c d rest)
  show ?case
  proof (cases "d = CHR ''_''")
    case True
    with "3.prems" obtain ds' where "is_digit c" "scan_digits rest = Some ds'" "ds = c # ds'"
      by (auto split: if_splits)
    with "3.IH"(1) True show ?thesis
      by (auto simp: is_digit_iff intro: digit_groups.underscore)
  next
    case False
    with "3.prems" obtain ds' where "is_digit c" "scan_digits (d # rest) = Some ds'" "ds = c # ds'"
      by (auto split: if_splits)
    with "3.IH"(2) False show ?thesis
      by (auto simp: is_digit_iff intro: digit_groups.adjacent)
  qed
qed

lemma groups_scan_digits: "digit_groups body ds \<Longrightarrow> scan_digits body = Some ds"
proof (induction rule: digit_groups.induct)
  case (single c)
  then show ?case by (simp add: is_digit_iff)
next
  case (adjacent c body ds)
  from digit_groups_start [OF adjacent.hyps(2)] obtain d rest
    where b: "body = d # rest" "decimal_char d" by blast
  with underscore_not_decimal have "d \<noteq> CHR ''_''" by auto
  with adjacent b show ?case by (simp add: is_digit_iff)
next
  case (underscore c body ds)
  then show ?case by (simp add: is_digit_iff)
qed

lemma decimal_char_cases:
  assumes "decimal_char c"
  obtains "c = CHR ''0''" | "c = CHR ''1''" | "c = CHR ''2''" | "c = CHR ''3''" | "c = CHR ''4''"
    | "c = CHR ''5''" | "c = CHR ''6''" | "c = CHR ''7''" | "c = CHR ''8''" | "c = CHR ''9''"
  using assms unfolding decimal_char_def by (simp only: set_simps insert_iff empty_iff) blast

lemma decimal_digit_of_char:
  assumes "decimal_char c"
  shows "decimal_digit c = of_char c - 48"
  using assms by (rule decimal_char_cases) (simp_all add: decimal_digit_def)

lemma decimal_not_space: "decimal_char c \<Longrightarrow> \<not> is_space c"
  by (erule decimal_char_cases) (simp_all add: is_space_def)

lemma decimal_not_sign: "decimal_char c \<Longrightarrow> c \<noteq> CHR ''-'' \<and> c \<noteq> CHR ''+''"
  by (erule decimal_char_cases) simp_all

lemma horner:
  "foldl (\<lambda>acc c. 10 * acc + f c) (a :: nat) ds =
     a * 10 ^ length ds + (\<Sum>i < length ds. f (ds ! i) * 10 ^ (length ds - Suc i))"
proof (induction ds arbitrary: a)
  case Nil
  then show ?case by simp
next
  case (Cons d ds)
  have shift: "(\<Sum>i < Suc (length ds). f ((d # ds) ! i) * 10 ^ (Suc (length ds) - Suc i)) =
      f d * 10 ^ length ds + (\<Sum>i < length ds. f (ds ! i) * 10 ^ (length ds - Suc i))"
    by (subst sum.lessThan_Suc_shift) simp
  have "foldl (\<lambda>acc c. 10 * acc + f c) a (d # ds) =
      (10 * a + f d) * 10 ^ length ds +
      (\<Sum>i < length ds. f (ds ! i) * 10 ^ (length ds - Suc i))"
    by (simp only: foldl_Cons Cons.IH)
  also have "\<dots> = a * 10 ^ Suc (length ds) +
      (f d * 10 ^ length ds + (\<Sum>i < length ds. f (ds ! i) * 10 ^ (length ds - Suc i)))"
    by (simp add: algebra_simps)
  finally show ?case by (simp only: shift length_Cons)
qed

lemma digits_value_decimal:
  assumes "list_all decimal_char ds"
  shows "digits_value ds = decimal_value ds"
proof -
  have "digits_value ds = (\<Sum>i < length ds. (of_char (ds ! i) - 48) * 10 ^ (length ds - Suc i))"
    by (simp add: digits_value_def horner)
  also have "\<dots> = decimal_value ds"
    unfolding decimal_value_def
    using assms by (intro sum.cong) (auto simp: decimal_digit_of_char list_all_length)
  finally show ?thesis .
qed

lemma parse_unsigned_groups:
  "parse_unsigned body = Some v \<longleftrightarrow>
     (\<exists>ds. digit_groups body ds \<and> length ds \<le> 4300 \<and> v = decimal_value ds)"
proof
  assume "parse_unsigned body = Some v"
  then obtain ds where s: "scan_digits body = Some ds" "length ds \<le> 4300" "v = digits_value ds"
    by (auto simp: parse_unsigned_def int_max_str_digits_def split: option.splits if_splits)
  from s(1) have g: "digit_groups body ds" by (rule scan_digits_groups)
  with s digits_value_decimal [OF digit_groups_digits [OF g]]
  show "\<exists>ds. digit_groups body ds \<and> length ds \<le> 4300 \<and> v = decimal_value ds" by auto
next
  assume "\<exists>ds. digit_groups body ds \<and> length ds \<le> 4300 \<and> v = decimal_value ds"
  then obtain ds where g: "digit_groups body ds" "length ds \<le> 4300" "v = decimal_value ds"
    by blast
  with groups_scan_digits [OF g(1)] digits_value_decimal [OF digit_groups_digits [OF g(1)]]
  show "parse_unsigned body = Some v"
    by (simp add: parse_unsigned_def int_max_str_digits_def)
qed

lemma strip_decompose:
  "\<exists>pre post. s = pre @ strip s @ post \<and> list_all is_space pre \<and> list_all is_space post"
proof -
  define u where "u = dropWhile is_space s"
  have 1: "s = takeWhile is_space s @ u" by (simp add: u_def)
  have "u = rev (dropWhile is_space (rev u)) @ rev (takeWhile is_space (rev u))"
    by (metis rev_append rev_rev_ident takeWhile_dropWhile_id)
  then have 2: "u = strip s @ rev (takeWhile is_space (rev u))"
    by (simp only: strip_def u_def)
  have 3: "list_all is_space (takeWhile is_space s)"
    by (simp add: list_all_iff) (meson set_takeWhileD)
  have 4: "list_all is_space (rev (takeWhile is_space (rev u)))"
    by (simp add: list_all_iff) (meson set_takeWhileD)
  from 1 2 have "s = takeWhile is_space s @ strip s @ rev (takeWhile is_space (rev u))" by simp
  with 3 4 show ?thesis by blast
qed

lemma dropWhile_padding:
  "list_all P pre \<Longrightarrow> \<not> P x \<Longrightarrow> dropWhile P (pre @ x # xs) = x # xs"
  by (induction pre) auto

lemma strip_padded:
  assumes "list_all is_space pre" and "list_all is_space post"
    and "core \<noteq> []" and "\<not> is_space (hd core)" and "\<not> is_space (last core)"
  shows "strip (pre @ core @ post) = core"
proof -
  from assms(3) obtain x xs where c: "core = x # xs" by (cases core) auto
  from assms(3) obtain ys y where r: "core = ys @ [y]" by (cases core rule: rev_cases) auto
  have 1: "dropWhile is_space (pre @ core @ post) = core @ post"
    using dropWhile_padding [OF assms(1), of x "xs @ post"] assms(4) c by simp
  have "rev (core @ post) = rev post @ y # rev ys" by (simp add: r)
  moreover have "list_all is_space (rev post)" using assms(2) by (simp add: list_all_iff)
  moreover have "\<not> is_space y" using assms(5) r by simp
  ultimately have 2: "dropWhile is_space (rev (core @ post)) = y # rev ys"
    using dropWhile_padding by metis
  have "strip (pre @ core @ post) = rev (dropWhile is_space (rev (core @ post)))"
    by (simp only: strip_def 1)
  also have "\<dots> = rev (y # rev ys)" by (simp only: 2)
  also have "\<dots> = core" by (simp add: r)
  finally show ?thesis .
qed

lemma int_of_str_integer_text: "int_of_str s = Some n \<longleftrightarrow> integer_text s n"
proof
  assume p: "int_of_str s = Some n"
  obtain pre post where d: "s = pre @ strip s @ post" "list_all space_char pre"
    "list_all space_char post"
    using strip_decompose [of s] by (auto simp: is_space_iff [abs_def])
  from p obtain c cs where t: "strip s = c # cs"
    by (auto simp: int_of_str_def split: list.splits)
  consider (minus) "c = CHR ''-''" | (plus) "c = CHR ''+''" | (none) "c \<noteq> CHR ''-''" "c \<noteq> CHR ''+''"
    by blast
  then show "integer_text s n"
  proof cases
    case minus
    with p t obtain v where "parse_unsigned cs = Some v" "n = - int v"
      by (auto simp: int_of_str_def)
    then obtain ds where "digit_groups cs ds" "length ds \<le> 4300" "n = - int (decimal_value ds)"
      by (auto simp: parse_unsigned_groups)
    moreover have "s = pre @ ''-'' @ cs @ post" using d(1) t minus by simp
    ultimately show ?thesis unfolding integer_text_def using d(2,3) by blast
  next
    case plus
    with p t obtain v where "parse_unsigned cs = Some v" "n = int v"
      by (auto simp: int_of_str_def)
    then obtain ds where "digit_groups cs ds" "length ds \<le> 4300" "n = int (decimal_value ds)"
      by (auto simp: parse_unsigned_groups)
    moreover have "s = pre @ ''+'' @ cs @ post" using d(1) t plus by simp
    ultimately show ?thesis unfolding integer_text_def using d(2,3) by blast
  next
    case none
    with p t obtain v where "parse_unsigned (c # cs) = Some v" "n = int v"
      by (auto simp: int_of_str_def)
    then obtain ds where "digit_groups (c # cs) ds" "length ds \<le> 4300"
      "n = int (decimal_value ds)"
      by (auto simp: parse_unsigned_groups)
    moreover have "s = pre @ '''' @ (c # cs) @ post" using d(1) t by simp
    ultimately show ?thesis unfolding integer_text_def using d(2,3) by blast
  qed
next
  assume "integer_text s n"
  then obtain pre sgn body post ds where
    s: "s = pre @ sgn @ body @ post" "list_all space_char pre" "list_all space_char post"
    and g: "digit_groups body ds" "length ds \<le> 4300"
    and n: "sgn = '''' \<and> n = int (decimal_value ds) \<or>
            sgn = ''+'' \<and> n = int (decimal_value ds) \<or>
            sgn = ''-'' \<and> n = - int (decimal_value ds)"
    unfolding integer_text_def by blast
  from digit_groups_start [OF g(1)] obtain c rest where b: "body = c # rest" "decimal_char c"
    by blast
  from digit_groups_last [OF g(1)] have l: "decimal_char (last body)" by simp
  have pu: "parse_unsigned body = Some (decimal_value ds)"
    using g by (auto simp: parse_unsigned_groups)
  have sp: "list_all is_space pre" "list_all is_space post"
    using s(2,3) by (simp_all add: is_space_iff [abs_def])
  have core: "strip s = sgn @ body"
  proof -
    have "sgn @ body \<noteq> []" using b by simp
    moreover have "\<not> is_space (hd (sgn @ body))"
      using n b decimal_not_space [OF b(2)] by (auto simp: is_space_def)
    moreover have "\<not> is_space (last (sgn @ body))"
      using b l decimal_not_space by simp
    ultimately have "strip (pre @ (sgn @ body) @ post) = sgn @ body"
      using strip_padded [OF sp] by blast
    then show ?thesis by (simp add: s(1))
  qed
  from n show "int_of_str s = Some n"
  proof (elim disjE conjE)
    assume "sgn = ''''" "n = int (decimal_value ds)"
    then show ?thesis
      using core b pu decimal_not_sign [OF b(2)] by (simp add: int_of_str_def)
  next
    assume "sgn = ''+''" "n = int (decimal_value ds)"
    then show ?thesis using core pu by (simp add: int_of_str_def)
  next
    assume "sgn = ''-''" "n = - int (decimal_value ds)"
    then show ?thesis using core pu by (simp add: int_of_str_def)
  qed
qed

lemma scan_digits_ones:
  "scan_digits (replicate (Suc m) CHR ''1'') = Some (replicate (Suc m) CHR ''1'')"
proof (induction m)
  case 0
  then show ?case by (simp add: is_digit_def)
next
  case (Suc m)
  have "scan_digits (CHR ''1'' # CHR ''1'' # replicate m CHR ''1'') =
      map_option ((#) CHR ''1'') (scan_digits (CHR ''1'' # replicate m CHR ''1''))"
    by (simp add: is_digit_def)
  with Suc show ?case by simp
qed

lemma strip_ones: "strip (replicate n CHR ''1'') = replicate n CHR ''1''"
  by (simp add: strip_def is_space_def dropWhile_replicate)

lemma int_of_str_too_many_digits:
  "4300 < Suc m \<Longrightarrow> int_of_str (replicate (Suc m) CHR ''1'') = None"
proof -
  assume l: "4300 < Suc m"
  have "int_of_str (replicate (Suc m) CHR ''1'') =
      map_option int (parse_unsigned (replicate (Suc m) CHR ''1''))"
    unfolding int_of_str_def strip_ones by simp
  also have "\<dots> = None"
    using l by (simp only: parse_unsigned_def scan_digits_ones int_max_str_digits_def) simp
  finally show ?thesis .
qed

lemma int_of_str_4301_digits: "int_of_str (replicate 4301 CHR ''1'') = None"
proof -
  have "(4301 :: nat) = Suc 4300" by simp
  then show ?thesis
    using int_of_str_too_many_digits [of 4300] by simp
qed

section \<open>Properties of the listing routes\<close>

lemmas int_of_str_run =
  int_of_str_def strip_def is_space_def parse_unsigned_def is_digit_def digits_value_def
  int_max_str_digits_def

lemma int_of_str_examples:
  "int_of_str ''1'' = Some 1"
  "int_of_str ''2'' = Some 2"
  "int_of_str ''0'' = Some 0"
  "int_of_str '' 7 '' = Some 7"
  "int_of_str ''7x'' = None"
  "int_of_str [CHR 0x1C, CHR ''1''] = None"
  by (simp_all add: int_of_str_run)

lemma ex_similar_inputs:
  "parse_page int_of_str (ex_similar_request ''1'') = Inr 1"
  "parse_page int_of_str (ex_similar_request ''2'') = Inr 2"
  "query_params (ex_similar_request p) ''id'' = Some ''hello.aleo''"
  "get_program_feature_hash ex_hello_db ''hello.aleo'' = Some ''h1''"
  "similar_count ex_hello_db ''h1'' = 1"
  by (simp_all add: parse_page_def ex_similar_request_def int_of_str_examples
      get_program_feature_hash_def ex_hello_db_def similar_count_def)

lemma similar_route_cases:
  assumes "parse_page int_text request = Inr pg"
    and "query_params request ''id'' = Some pid"
    and "get_program_feature_hash db pid = Some h"
  shows "similar_programs_route int_text db request =
     (if pg < 1 \<or> pg > similar_count db h div 50 + 1 then Inl (HTTPException 400 ''Invalid page'')
      else Inr \<lparr>similar_program_id = pid,
                similar_programs = take 50 (drop (nat (50 * (pg - 1))) (similarity_index db h)),
                similar_page = pg,
                similar_total_pages = similar_count db h div 50 + 1\<rparr>)"
  using assms
  by (simp add: similar_programs_route_def get_program_similar_count_def
      get_programs_with_feature_hash_def Let_def)

text \<open>
  Claim C5 says that a similarity page whose offset is at or beyond the count is an empty
  sequence and never an error. The group of \<open>hello.aleo\<close> has one program; page 2, whose
  offset 50 is beyond it, is answered with \<open>HTTPException 400\<close>.
\<close>

theorem similar_page_beyond_count_counterexample:
  "similar_count ex_hello_db ''h1'' = 1 \<and>
   parse_page int_of_str (ex_similar_request ''2'') = Inr 2 \<and>
   similar_count ex_hello_db ''h1'' \<le> 50 * (2 - 1) \<and>
   similar_programs_route int_of_str ex_hello_db (ex_similar_request ''2'') =
     Inl (HTTPException 400 ''Invalid page'')"
  by (simp add: similar_route_cases [OF ex_similar_inputs(2,3,4)] ex_similar_inputs(2,5))

text \<open>
  Claim C5, amended. For a similarity-page request that names a program with feature hash
  \<open>h\<close> and whose page \<open>p\<close> is read without error (1 when the parameter is absent, else
  what \<open>int\<close> returns), with offset \<open>50 * (p - 1)\<close>: when \<open>p\<close> \<open>\<ge>\<close> 1 and the offset is
  below \<open>count(h)\<close> the route returns the programs of the group from that offset on, at
  most 50; when \<open>p\<close> \<open>\<ge>\<close> 1 and the offset equals \<open>count(h)\<close> it returns the empty
  sequence; when the offset is beyond \<open>count(h)\<close>, or \<open>p\<close> is below 1, it raises
  \<open>HTTPException 400\<close> "Invalid page".
\<close>

theorem similar_page_served_iff_in_range:
  assumes "parse_page int_text request = Inr pg"
    and "query_params request ''id'' = Some pid"
    and "get_program_feature_hash db pid = Some h"
  shows "(1 \<le> pg \<and> 50 * (pg - 1) < similar_count db h \<longrightarrow>
            similar_programs_route int_text db request =
              Inr \<lparr>similar_program_id = pid,
                   similar_programs =
                     take 50 (drop (nat (50 * (pg - 1))) (similarity_index db h)),
                   similar_page = pg,
                   similar_total_pages = similar_count db h div 50 + 1\<rparr>) \<and>
         (1 \<le> pg \<and> 50 * (pg - 1) = similar_count db h \<longrightarrow>
            similar_programs_route int_text db request =
              Inr \<lparr>similar_program_id = pid, similar_programs = [],
                   similar_page = pg,
                   similar_total_pages = similar_count db h div 50 + 1\<rparr>) \<and>
         (pg < 1 \<or> similar_count db h < 50 * (pg - 1) \<longrightarrow>
            similar_programs_route int_text db request =
              Inl (HTTPException 400 ''Invalid page''))"
proof -
  note run = similar_route_cases [OF assms]
  have inside: "\<not> (pg < 1 \<or> pg > similar_count db h div 50 + 1)"
    if "1 \<le> pg" and "50 * (pg - 1) \<le> similar_count db h"
    using that by presburger
  have outside: "pg < 1 \<or> pg > similar_count db h div 50 + 1"
    if "pg < 1 \<or> similar_count db h < 50 * (pg - 1)"
    using that by presburger
  have empty: "drop (nat (50 * (pg - 1))) (similarity_index db h) = []"
    if "50 * (pg - 1) = similar_count db h"
    using that by (simp add: similar_count_def)
  show ?thesis
    using inside outside empty by (auto simp: run)
qed

theorem similar_page_served_iff_in_range_witness:
  "parse_page int_of_str (ex_similar_request ''1'') = Inr 1 \<and>
   similar_count ex_hello_db ''h1'' = 1 \<and>
   similar_programs_route int_of_str ex_hello_db (ex_similar_request ''1'') =
     Inr \<lparr>similar_program_id = ''hello.aleo'', similar_programs = [''hello.aleo''],
          similar_page = 1, similar_total_pages = 1\<rparr>"
proof -
  have l: "similarity_index ex_hello_db ''h1'' = [''hello.aleo'']"
    by (simp add: ex_hello_db_def)
  from similar_page_served_iff_in_range [OF ex_similar_inputs(1,3,4), THEN conjunct1]
  show ?thesis using ex_similar_inputs(1,5) l by simp
qed

lemma parse_no_helloworld_filter:
  "parse_no_helloworld int_of_str request =
     no_helloworld_filter (query_params request ''no_helloworld'')"
proof (cases "query_params request ''no_helloworld''")
  case None
  then show ?thesis by (simp add: parse_no_helloworld_def no_helloworld_filter_def)
next
  case (Some v)
  show ?thesis
  proof (cases "int_of_str v")
    case None
    then have "\<not> integer_text v n" for n
      by (simp add: int_of_str_integer_text [symmetric])
    with None Some show ?thesis
      by (simp add: parse_no_helloworld_def no_helloworld_filter_def)
  next
    case (Some m)
    then have "integer_text v n \<longleftrightarrow> n = m" for n
      by (auto simp: int_of_str_integer_text [symmetric])
    with Some \<open>query_params request ''no_helloworld'' = Some v\<close> show ?thesis
      by (simp add: parse_no_helloworld_def no_helloworld_filter_def)
  qed
qed

text \<open>
  Claim C10. The \<open>no_helloworld\<close> parameter never makes the program listing fail.
  Whatever \<open>int\<close> does on a text, the flag the route computes is off when the parameter
  is absent, off when \<open>int\<close> raises on it, and on exactly for a non-zero result. With
  \<open>int\<close> as the interpreter computes it, the flag is on exactly when the parameter is the
  text of an integer other than zero. The route is the listing under that flag, and fails
  only where the page is invalid.
\<close>

theorem no_helloworld_parameter_never_fails:
  "(query_params request ''no_helloworld'' = None \<longrightarrow>
      parse_no_helloworld int_text request = False) \<and>
   (\<forall>v. query_params request ''no_helloworld'' = Some v \<and> int_text v = None \<longrightarrow>
      parse_no_helloworld int_text request = False) \<and>
   (\<forall>v n. query_params request ''no_helloworld'' = Some v \<and> int_text v = Some n \<longrightarrow>
      parse_no_helloworld int_text request = (n \<noteq> 0)) \<and>
   parse_no_helloworld int_of_str request =
     no_helloworld_filter (query_params request ''no_helloworld'') \<and>
   programs_route int_text db request =
     (case parse_page int_text request of
        Inl e \<Rightarrow> Inl e
      | Inr pg \<Rightarrow>
          if pg < 1 \<or>
             pg > get_program_count db (parse_no_helloworld int_text request) div 50 + 1
          then Inl (HTTPException 400 ''Invalid page'')
          else Inr \<lparr>programs =
                      get_programs db (50 * (pg - 1)) (50 * (pg - 1) + 50)
                        (parse_no_helloworld int_text request) @
                      get_builtin_programs db,
                    page = pg,
                    total_pages =
                      get_program_count db (parse_no_helloworld int_text request) div 50 + 1,
                    no_helloworld = parse_no_helloworld int_text request\<rparr>)"
proof (intro conjI allI impI)
  show "parse_no_helloworld int_text request = False"
    if "query_params request ''no_helloworld'' = None"
    using that by (simp add: parse_no_helloworld_def)
next
  fix v
  assume "query_params request ''no_helloworld'' = Some v \<and> int_text v = None"
  then show "parse_no_helloworld int_text request = False"
    by (simp add: parse_no_helloworld_def)
next
  fix v n
  assume "query_params request ''no_helloworld'' = Some v \<and> int_text v = Some n"
  then show "parse_no_helloworld int_text request = (n \<noteq> 0)"
    by (simp add: parse_no_helloworld_def)
next
  show "parse_no_helloworld int_of_str request =
      no_helloworld_filter (query_params request ''no_helloworld'')"
    by (rule parse_no_helloworld_filter)
next
  show "programs_route int_text db request =
     (case parse_page int_text request of
        Inl e \<Rightarrow> Inl e
      | Inr pg \<Rightarrow>
          if pg < 1 \<or>
             pg > get_program_count db (parse_no_helloworld int_text request) div 50 + 1
          then Inl (HTTPException 400 ''Invalid page'')
          else Inr \<lparr>programs =
                      get_programs db (50 * (pg - 1)) (50 * (pg - 1) + 50)
                        (parse_no_helloworld int_text request) @
                      get_builtin_programs db,
                    page = pg,
                    total_pages =
                      get_program_count db (parse_no_helloworld int_text request) div 50 + 1,
                    no_helloworld = parse_no_helloworld int_text request\<rparr>)"
    by (simp add: programs_route_def Let_def split: sum.splits)
qed

theorem no_helloworld_parameter_never_fails_witness:
  "\<not> no_helloworld_filter (Some ''7x'') \<and>
   \<not> no_helloworld_filter (Some [CHR 0x1C, CHR ''1'']) \<and>
   \<not> no_helloworld_filter (Some ''0'') \<and>
   \<not> no_helloworld_filter (Some (replicate 4301 CHR ''1'')) \<and>
   no_helloworld_filter (Some '' 7 '') \<and>
   programs_route int_of_str ex_hello_db (ex_listing_request ''7x'') =
     Inr \<lparr>programs = [''hello.aleo'', ''credits.aleo''], page = 1, total_pages = 1,
          no_helloworld = False\<rparr> \<and>
   programs_route int_of_str ex_hello_db (ex_listing_request '' 7 '') =
     Inr \<lparr>programs = [''credits.aleo''], page = 1, total_pages = 1, no_helloworld = True\<rparr> \<and>
   programs_route int_of_str ex_hello_db (ex_listing_request ''0'') =
     Inr \<lparr>programs = [''hello.aleo'', ''credits.aleo''], page = 1, total_pages = 1,
          no_helloworld = False\<rparr>"
proof -
  have q: "query_params (ex_listing_request v) ''no_helloworld'' = Some v"
    "parse_page int_of_str (ex_listing_request v) = Inr 1" for v
    by (simp_all add: ex_listing_request_def parse_page_def)
  have f: "parse_no_helloworld int_of_str (ex_listing_request ''7x'') = False"
    "parse_no_helloworld int_of_str (ex_listing_request [CHR 0x1C, CHR ''1'']) = False"
    "parse_no_helloworld int_of_str (ex_listing_request ''0'') = False"
    "parse_no_helloworld int_of_str (ex_listing_request '' 7 '') = True"
    by (simp_all add: parse_no_helloworld_def q int_of_str_examples)
  have d: "get_program_count ex_hello_db False = 1" "get_program_count ex_hello_db True = 0"
    "get_programs ex_hello_db 0 50 False = [''hello.aleo'']"
    "get_programs ex_hello_db 0 50 True = []"
    "get_builtin_programs ex_hello_db = [''credits.aleo'']"
    by (simp_all add: get_program_count_def get_programs_def get_builtin_programs_def
        ex_hello_db_def)
  note r = no_helloworld_parameter_never_fails [where int_text = int_of_str and db = ex_hello_db]
  note flag = r [THEN conjunct2, THEN conjunct2, THEN conjunct2, THEN conjunct1]
  note route = r [THEN conjunct2, THEN conjunct2, THEN conjunct2, THEN conjunct2]
  have 1: "\<not> no_helloworld_filter (Some ''7x'')"
    using flag [of "ex_listing_request ''7x''"] f(1) q(1) by simp
  have 2: "\<not> no_helloworld_filter (Some [CHR 0x1C, CHR ''1''])"
    using flag [of "ex_listing_request [CHR 0x1C, CHR ''1'']"] f(2) q(1) by simp
  have 3: "\<not> no_helloworld_filter (Some ''0'')"
    using flag [of "ex_listing_request ''0''"] f(3) q(1) by simp
  have l: "parse_no_helloworld int_of_str (ex_listing_request (replicate 4301 CHR ''1'')) = False"
    by (simp add: parse_no_helloworld_def q int_of_str_4301_digits)
  have 8: "\<not> no_helloworld_filter (Some (replicate 4301 CHR ''1''))"
    using flag [of "ex_listing_request (replicate 4301 CHR ''1'')"] l q(1) by simp
  have 4: "no_helloworld_filter (Some '' 7 '')"
    using flag [of "ex_listing_request '' 7 ''"] f(4) q(1) by simp
  have 5: "programs_route int_of_str ex_hello_db (ex_listing_request ''7x'') =
     Inr \<lparr>programs = [''hello.aleo'', ''credits.aleo''], page = 1, total_pages = 1,
          no_helloworld = False\<rparr>"
    by (simp add: route q f d)
  have 6: "programs_route int_of_str ex_hello_db (ex_listing_request '' 7 '') =
     Inr \<lparr>programs = [''credits.aleo''], page = 1, total_pages = 1, no_helloworld = True\<rparr>"
    by (simp add: route q f d)
  have 7: "programs_route int_of_str ex_hello_db (ex_listing_request ''0'') =
     Inr \<lparr>programs = [''hello.aleo'', ''credits.aleo''], page = 1, total_pages = 1,
          no_helloworld = False\<rparr>"
    by (simp add: route q f d)
  from 1 2 3 8 4 5 6 7 show ?thesis by (intro conjI)
qed

end
